theory Spec2Isabelle
  imports Main "HOL-Library.AList"
begin

section \<open>Values, errors and replies\<close>

text \<open>
  The protocol library (chrome-remote-interface) is external to the repository. Every call
  into it is an \<open>await\<close>; the model takes the outcome of each such call as an argument:
  a reply is either a rejection carrying the message of the rejected error, or a
  resolution carrying the payload. Every function of the client returns, next to its
  result, the list of calls it issued to the library, in order.
\<close>

datatype jsval =
    JUndefined
  | JNull
  | JBool bool
  | JNum int
  | JStr string
  | JArr "jsval list"
  | JObj "(string \<times> jsval) list"

type_synonym 'a reply = "string + 'a"

text \<open>
  \<open>src/types/index.ts\<close>: \<open>CDPError extends ElectronMCPError extends Error\<close>. The
  constructor of \<open>CDPError\<close> fixes \<open>name\<close> and \<open>code\<close>; \<open>details\<close> is optional.
  \<open>Error\<close> is the plain JavaScript error, which \<open>ensureConnected\<close> and the body of
  \<open>evaluate\<close> throw.
\<close>

datatype js_error =
    Error string
  | CDPError string "(string \<times> jsval) list option"

fun message :: "js_error \<Rightarrow> string" where
  "message (Error m) = m"
| "message (CDPError m d) = m"

fun error_name :: "js_error \<Rightarrow> string" where
  "error_name (Error m) = ''Error''"
| "error_name (CDPError m d) = ''CDPError''"

fun error_code :: "js_error \<Rightarrow> string option" where
  "error_code (Error m) = None"
| "error_code (CDPError m d) = Some ''CDP_ERROR''"

fun details :: "js_error \<Rightarrow> (string \<times> jsval) list option" where
  "details (Error m) = None"
| "details (CDPError m d) = d"

text \<open>An awaited call that rejects throws an error with the rejection's message.\<close>

definition await :: "'a reply \<Rightarrow> js_error + 'a" where
  "await r = (case r of Inl m \<Rightarrow> Inl (Error m) | Inr v \<Rightarrow> Inr v)"

text \<open>
  \<open>Promise.all\<close> over an array of promises that all settle. \<open>order\<close> lists the indices
  of the promises in the order in which they settle in time; an index that it leaves
  out settles after the listed ones, in array order. The combined promise rejects with
  the reason of the promise that is the first to reject in time, and resolves with the
  values in array order when none rejects.
\<close>

fun first_rejection :: "'a reply list \<Rightarrow> nat list \<Rightarrow> string option" where
  "first_rejection rs [] = None"
| "first_rejection rs (i # order) =
     (if i < length rs
      then (case rs ! i of Inl m \<Rightarrow> Some m | Inr v \<Rightarrow> first_rejection rs order)
      else first_rejection rs order)"

fun resolved_values :: "'a reply list \<Rightarrow> 'a list" where
  "resolved_values [] = []"
| "resolved_values (Inl m # rs) = resolved_values rs"
| "resolved_values (Inr v # rs) = v # resolved_values rs"

definition Promise_all :: "nat list \<Rightarrow> 'a reply list \<Rightarrow> 'a list reply" where
  "Promise_all order rs =
     (case first_rejection rs (order @ [0..<length rs]) of
        Some m \<Rightarrow> Inl m
      | None \<Rightarrow> Inr (resolved_values rs))"

section \<open>The data model of \<open>src/types/index.ts\<close>\<close>

record CDPTarget =
  id_target :: string
  type_target :: string
  title :: string
  url :: string
  webSocketDebuggerUrl :: "string option"
  devtoolsFrontendUrl :: "string option"

text \<open>
  \<open>client\<close> is the handle of the channel object that the library returned; two channels
  are the same object exactly when their handles are equal.
\<close>

record CDPConnection =
  targetId :: string
  client :: nat
  connected :: bool

text \<open>
  Of \<open>DOMNode\<close> the fields that the client reads or that the claims mention; the
  remaining optional fields of the interface are passed through unread.
\<close>

datatype DOMNode =
  DOMNode (nodeId: int) (nodeType: int) (nodeName: string)
    (children: "DOMNode list option") (attributes: "string list option")

section \<open>Calls issued to the protocol library\<close>

datatype event =
    ListTargets string nat
  | Opened string nat
  | OpenFailed string
  | Send nat string jsval
  | Close nat

text \<open>
  \<open>ListTargets h p\<close>: \<open>CDP.List({host, port})\<close>.
  \<open>Opened t c\<close>: \<open>CDP({host, port, target: t})\<close> resolved with the channel \<open>c\<close>;
  \<open>OpenFailed t\<close>: it rejected.
  \<open>Send c m params\<close>: the protocol method \<open>m\<close> called on channel \<open>c\<close>.
  \<open>Close c\<close>: \<open>client.close()\<close> called on channel \<open>c\<close>.
\<close>

section \<open>\<open>CDPClient\<close> (\<open>src/lib/cdp-client.ts\<close>)\<close>

text \<open>
  \<open>connections\<close> is a JavaScript \<open>Map\<close>: an association list in insertion order.
  \<open>Map.get\<close> is \<^const>\<open>map_of\<close>, \<open>Map.set\<close> is \<^const>\<open>AList.update\<close> (an existing key keeps
  its position, a new key goes to the end), \<open>Map.delete\<close> is \<^const>\<open>AList.delete\<close>.
\<close>

record CDPClient =
  connections :: "(string \<times> CDPConnection) list"
  host :: string
  port :: nat

definition new_CDPClient :: "string \<Rightarrow> nat \<Rightarrow> CDPClient" where
  "new_CDPClient h p = \<lparr>connections = [], host = h, port = p\<rparr>"

text \<open>The default arguments of the constructor.\<close>

definition default_CDPClient :: CDPClient where
  "default_CDPClient = new_CDPClient ''localhost'' 9222"

definition originalError :: "string \<Rightarrow> string \<times> jsval" where
  "originalError m = (''originalError'', JStr m)"

subsection \<open>\<open>listTargets\<close>\<close>

definition listTargets ::
  "CDPClient \<Rightarrow> CDPTarget list reply \<Rightarrow> (js_error + CDPTarget list) \<times> event list" where
  "listTargets this list_reply =
     (case await list_reply of
        Inr targets \<Rightarrow>
          (Inr (map (\<lambda>target.
                  \<lparr>id_target = id_target target, type_target = type_target target,
                   title = title target, url = url target,
                   webSocketDebuggerUrl = webSocketDebuggerUrl target,
                   devtoolsFrontendUrl = devtoolsFrontendUrl target\<rparr>) targets),
           [ListTargets (host this) (port this)])
      | Inl error \<Rightarrow>
          (Inl (CDPError
             ''Failed to list CDP targets. Make sure Electron is running with --inspect flag.''
             (Some [originalError (message error), (''host'', JStr (host this)),
                    (''port'', JNum (int (port this)))])),
           [ListTargets (host this) (port this)]))"

subsection \<open>\<open>connect\<close>\<close>

record connect_replies =
  CDP_reply :: "nat reply"
  DOM_enable :: "unit reply"
  Runtime_enable :: "unit reply"
  Page_enable :: "unit reply"
  Network_enable :: "unit reply"
  settle_order :: "nat list"

text \<open>
  \<open>settle_order\<close> is the order in time in which the four enable calls settle, as indices
  into the array of line 64.
\<close>

definition enable_replies :: "connect_replies \<Rightarrow> unit reply list" where
  "enable_replies env = [DOM_enable env, Runtime_enable env, Page_enable env, Network_enable env]"

definition enable_calls :: "nat \<Rightarrow> event list" where
  "enable_calls c =
     [Send c ''DOM.enable'' JUndefined, Send c ''Runtime.enable'' JUndefined,
      Send c ''Page.enable'' JUndefined, Send c ''Network.enable'' JUndefined]"

definition connect_error :: "string \<Rightarrow> js_error \<Rightarrow> js_error" where
  "connect_error tid error =
     CDPError (''Failed to connect to target '' @ tid) (Some [originalError (message error)])"

text \<open>
  The test of lines 49 to 54: the map has the key and the stored session's flag is set.
\<close>

definition already_connected :: "CDPClient \<Rightarrow> string \<Rightarrow> bool" where
  "already_connected this tid =
     (case map_of (connections this) tid of
        Some existing \<Rightarrow> connected existing
      | None \<Rightarrow> False)"

definition connect ::
  "CDPClient \<Rightarrow> string \<Rightarrow> connect_replies \<Rightarrow> (js_error + unit) \<times> CDPClient \<times> event list" where
  "connect this tid env =
     (if already_connected this tid then (Inr (), this, [])
      else
        (case await (CDP_reply env) of
           Inl error \<Rightarrow> (Inl (connect_error tid error), this, [OpenFailed tid])
         | Inr c \<Rightarrow>
             (case await (Promise_all (settle_order env) (enable_replies env)) of
                Inl error \<Rightarrow>
                  (Inl (connect_error tid error), this, Opened tid c # enable_calls c)
              | Inr _ \<Rightarrow>
                  (Inr (),
                   this\<lparr>connections :=
                     AList.update tid \<lparr>targetId = tid, client = c, connected = True\<rparr>
                       (connections this)\<rparr>,
                   Opened tid c # enable_calls c))))"

subsection \<open>\<open>disconnect\<close> and \<open>disconnectAll\<close>\<close>

text \<open>
  \<open>close_reply\<close> gives, for each channel, the outcome of its \<open>close()\<close>. When it resolves
  the session object's flag is cleared; in both cases the entry is then deleted. The
  function never throws.
\<close>

definition disconnect ::
  "CDPClient \<Rightarrow> string \<Rightarrow> (nat \<Rightarrow> unit reply) \<Rightarrow> CDPClient \<times> event list" where
  "disconnect this tid close_reply =
     (case map_of (connections this) tid of
        None \<Rightarrow> (this, [])
      | Some connection \<Rightarrow>
          if connected connection then
            (let conns =
               (case await (close_reply (client connection)) of
                  Inr _ \<Rightarrow> AList.update tid (connection\<lparr>connected := False\<rparr>) (connections this)
                | Inl error \<Rightarrow> connections this)
             in (this\<lparr>connections := AList.delete tid conns\<rparr>, [Close (client connection)]))
          else (this, []))"

fun disconnect_each ::
  "CDPClient \<Rightarrow> string list \<Rightarrow> (nat \<Rightarrow> unit reply) \<Rightarrow> CDPClient \<times> event list" where
  "disconnect_each this [] close_reply = (this, [])"
| "disconnect_each this (tid # tids) close_reply =
     (let (this1, evs1) = disconnect this tid close_reply;
          (this2, evs2) = disconnect_each this1 tids close_reply
      in (this2, evs1 @ evs2))"

definition disconnectAll ::
  "CDPClient \<Rightarrow> (nat \<Rightarrow> unit reply) \<Rightarrow> CDPClient \<times> event list" where
  "disconnectAll this close_reply =
     disconnect_each this (map fst (connections this)) close_reply"

subsection \<open>\<open>getConnection\<close>, \<open>isConnected\<close>, \<open>getActiveConnections\<close>\<close>

definition not_connected_error :: "string \<Rightarrow> js_error" where
  "not_connected_error tid =
     CDPError (''Not connected to target '' @ tid @ ''. Call connect() first.'') None"

definition getConnection :: "CDPClient \<Rightarrow> string \<Rightarrow> js_error + CDPConnection" where
  "getConnection this tid =
     (case map_of (connections this) tid of
        None \<Rightarrow> Inl (not_connected_error tid)
      | Some connection \<Rightarrow>
          if \<not> connected connection then Inl (not_connected_error tid)
          else Inr connection)"

definition isConnected :: "CDPClient \<Rightarrow> string \<Rightarrow> bool" where
  "isConnected this tid =
     (case map_of (connections this) tid of
        None \<Rightarrow> False
      | Some connection \<Rightarrow> connected connection)"

definition getActiveConnections :: "CDPClient \<Rightarrow> string list" where
  "getActiveConnections this =
     map fst (filter (\<lambda>(_, conn). connected conn) (connections this))"

subsection \<open>Operations on a connected session\<close>

text \<open>
  Each operation first calls \<open>getConnection\<close>, outside its \<open>try\<close>: that error propagates
  as it is. Every error thrown inside the \<open>try\<close> is caught and replaced by a \<open>CDPError\<close>
  whose details carry the caught error's message.
\<close>

definition getDocument ::
  "CDPClient \<Rightarrow> string \<Rightarrow> DOMNode reply \<Rightarrow> (js_error + DOMNode) \<times> event list" where
  "getDocument this tid doc_reply =
     (case getConnection this tid of
        Inl e \<Rightarrow> (Inl e, [])
      | Inr connection \<Rightarrow>
          (let evs = [Send (client connection) ''DOM.getDocument''
                        (JObj [(''depth'', JNum (- 1))])]
           in case await doc_reply of
                Inr root \<Rightarrow> (Inr root, evs)
              | Inl error \<Rightarrow>
                  (Inl (CDPError (''Failed to get document for target '' @ tid)
                          (Some [originalError (message error)])), evs)))"

text \<open>\<open>nodeId || null\<close>: an undefined or zero node id is falsy.\<close>

definition nodeId_or_null :: "int option \<Rightarrow> int option" where
  "nodeId_or_null n = (case n of None \<Rightarrow> None | Some i \<Rightarrow> if i = 0 then None else Some i)"

text \<open>\<open>nodeIds || []\<close>: every array is truthy, an undefined field is not.\<close>

definition nodeIds_or_empty :: "int list option \<Rightarrow> int list" where
  "nodeIds_or_empty ns = (case ns of None \<Rightarrow> [] | Some is \<Rightarrow> is)"

definition selector_params :: "DOMNode \<Rightarrow> string \<Rightarrow> jsval" where
  "selector_params root selector =
     JObj [(''nodeId'', JNum (nodeId root)), (''selector'', JStr selector)]"

definition querySelector ::
  "CDPClient \<Rightarrow> string \<Rightarrow> string \<Rightarrow> DOMNode reply \<Rightarrow> int option reply \<Rightarrow>
   (js_error + int option) \<times> event list" where
  "querySelector this tid selector doc_reply query_reply =
     (case getConnection this tid of
        Inl e \<Rightarrow> (Inl e, [])
      | Inr connection \<Rightarrow>
          (let c = client connection;
               failed = (\<lambda>error. Inl (CDPError
                  (''Failed to query selector '' @ [CHR 0x22] @ selector @ [CHR 0x22])
                  (Some [originalError (message error)])))
           in case await doc_reply of
                Inl error \<Rightarrow> (failed error, [Send c ''DOM.getDocument'' JUndefined])
              | Inr root \<Rightarrow>
                  (let evs = [Send c ''DOM.getDocument'' JUndefined,
                              Send c ''DOM.querySelector'' (selector_params root selector)]
                   in case await query_reply of
                        Inl error \<Rightarrow> (failed error, evs)
                      | Inr n \<Rightarrow> (Inr (nodeId_or_null n), evs))))"

definition querySelectorAll ::
  "CDPClient \<Rightarrow> string \<Rightarrow> string \<Rightarrow> DOMNode reply \<Rightarrow> int list option reply \<Rightarrow>
   (js_error + int list) \<times> event list" where
  "querySelectorAll this tid selector doc_reply query_reply =
     (case getConnection this tid of
        Inl e \<Rightarrow> (Inl e, [])
      | Inr connection \<Rightarrow>
          (let c = client connection;
               failed = (\<lambda>error. Inl (CDPError
                  (''Failed to query selector all '' @ [CHR 0x22] @ selector @ [CHR 0x22])
                  (Some [originalError (message error)])))
           in case await doc_reply of
                Inl error \<Rightarrow> (failed error, [Send c ''DOM.getDocument'' JUndefined])
              | Inr root \<Rightarrow>
                  (let evs = [Send c ''DOM.getDocument'' JUndefined,
                              Send c ''DOM.querySelectorAll'' (selector_params root selector)]
                   in case await query_reply of
                        Inl error \<Rightarrow> (failed error, evs)
                      | Inr ns \<Rightarrow> (Inr (nodeIds_or_empty ns), evs))))"

text \<open>
  The loop of \<open>getNodeAttributes\<close>, lines 176 to 178. \<open>result\<close> is the plain object
  \<open>{}\<close> of line 173; the model keeps its own properties, as a finite map from names to
  values. The assignment \<open>result[k] = v\<close> creates or overwrites the own property \<open>k\<close>,
  except for the name \<open>__proto__\<close>: that name is an accessor inherited from
  \<open>Object.prototype\<close>, the assignment runs its setter, and no own property is stored
  (for a string or \<open>undefined\<close> the setter does nothing at all). Reading
  \<open>attributes[i + 1]\<close> past the end of the array gives \<open>undefined\<close>.
\<close>

definition assign_property ::
  "(string \<rightharpoonup> jsval) \<Rightarrow> string \<Rightarrow> jsval \<Rightarrow> (string \<rightharpoonup> jsval)" where
  "assign_property obj k v = (if k = ''__proto__'' then obj else obj(k \<mapsto> v))"

definition at_index :: "string list \<Rightarrow> nat \<Rightarrow> jsval" where
  "at_index xs i = (if i < length xs then JStr (xs ! i) else JUndefined)"

function attributes_loop ::
  "string list \<Rightarrow> nat \<Rightarrow> (string \<rightharpoonup> jsval) \<Rightarrow> (string \<rightharpoonup> jsval)" where
  "attributes_loop attrs i result =
     (if i < length attrs
      then attributes_loop attrs (i + 2)
             (assign_property result (attrs ! i) (at_index attrs (i + 1)))
      else result)"
  by pat_completeness auto
termination
  by (relation "measure (\<lambda>(attrs, i, result). length attrs - i)") auto

declare attributes_loop.simps [simp del]

text \<open>
  The conversion of a number to a string is done by the JavaScript runtime (decimal
  digits for an integer of magnitude below ten to the power 21, exponent form from
  there on). It is not code of the repository: the two operations that put a node id
  into a message take it as the parameter \<open>number_to_string\<close>.
\<close>

definition getNodeAttributes ::
  "CDPClient \<Rightarrow> string \<Rightarrow> int \<Rightarrow> (int \<Rightarrow> string) \<Rightarrow> string list reply \<Rightarrow>
   (js_error + (string \<rightharpoonup> jsval)) \<times> event list" where
  "getNodeAttributes this tid nid number_to_string attr_reply =
     (case getConnection this tid of
        Inl e \<Rightarrow> (Inl e, [])
      | Inr connection \<Rightarrow>
          (let evs = [Send (client connection) ''DOM.getAttributes''
                        (JObj [(''nodeId'', JNum nid)])]
           in case await attr_reply of
                Inr attrs \<Rightarrow> (Inr (attributes_loop attrs 0 Map.empty), evs)
              | Inl error \<Rightarrow>
                  (Inl (CDPError (''Failed to get attributes for node '' @ number_to_string nid)
                          (Some [originalError (message error)])), evs)))"

text \<open>
  The specification's reading of the decoding, to compare with the loop: the flat
  sequence is cut into consecutive (name, value) pairs, and the pairs are folded into a
  mapping from left to right, a later pair replacing an earlier one of the same name.
\<close>

fun pairs :: "'a list \<Rightarrow> ('a \<times> 'a) list" where
  "pairs (n # v # rest) = (n, v) # pairs rest"
| "pairs [n] = []"
| "pairs [] = []"

definition store_pair ::
  "string \<times> string \<Rightarrow> (string \<rightharpoonup> jsval) \<Rightarrow> (string \<rightharpoonup> jsval)" where
  "store_pair p m = m(fst p \<mapsto> JStr (snd p))"

definition fold_pairwise :: "string list \<Rightarrow> (string \<rightharpoonup> jsval)" where
  "fold_pairwise attrs = fold store_pair (pairs attrs) Map.empty"

text \<open>The names of a payload: its elements at the even positions.\<close>

fun names :: "'a list \<Rightarrow> 'a list" where
  "names (n # v # rest) = n # names rest"
| "names [n] = [n]"
| "names [] = []"

text \<open>The loop of the source, read as a recursion on what is left of the array.\<close>

fun attributes_from ::
  "string list \<Rightarrow> (string \<rightharpoonup> jsval) \<Rightarrow> (string \<rightharpoonup> jsval)" where
  "attributes_from (n # v # rest) result =
     attributes_from rest (assign_property result n (JStr v))"
| "attributes_from [n] result = assign_property result n JUndefined"
| "attributes_from [] result = result"

definition getOuterHTML ::
  "CDPClient \<Rightarrow> string \<Rightarrow> int \<Rightarrow> (int \<Rightarrow> string) \<Rightarrow> string reply \<Rightarrow>
   (js_error + string) \<times> event list" where
  "getOuterHTML this tid nid number_to_string html_reply =
     (case getConnection this tid of
        Inl e \<Rightarrow> (Inl e, [])
      | Inr connection \<Rightarrow>
          (let evs = [Send (client connection) ''DOM.getOuterHTML''
                        (JObj [(''nodeId'', JNum nid)])]
           in case await html_reply of
                Inr outerHTML \<Rightarrow> (Inr outerHTML, evs)
              | Inl error \<Rightarrow>
                  (Inl (CDPError (''Failed to get outer HTML for node '' @ number_to_string nid)
                          (Some [originalError (message error)])), evs)))"

text \<open>
  The reply of \<open>Runtime.evaluate\<close>: \<open>result.value\<close> and the optional
  \<open>exceptionDetails\<close> with its optional \<open>text\<close>.
\<close>

record ExceptionDetails =
  exception_text :: "string option"

record evaluate_reply =
  result_value :: jsval
  exceptionDetails :: "ExceptionDetails option"

text \<open>\<open>a || b\<close> on an optional string: undefined and the empty string are falsy.\<close>

definition or_string :: "string option \<Rightarrow> string \<Rightarrow> string" where
  "or_string a b = (case a of None \<Rightarrow> b | Some s \<Rightarrow> if s = [] then b else s)"

text \<open>The body of the \<open>try\<close> of \<open>evaluate\<close>, lines 211 to 221.\<close>

definition evaluate_try :: "evaluate_reply reply \<Rightarrow> js_error + jsval" where
  "evaluate_try eval_reply =
     (case await eval_reply of
        Inl error \<Rightarrow> Inl error
      | Inr r \<Rightarrow>
          (case exceptionDetails r of
             Some ed \<Rightarrow> Inl (Error (or_string (exception_text ed) ''JavaScript execution failed''))
           | None \<Rightarrow> Inr (result_value r)))"

definition evaluate ::
  "CDPClient \<Rightarrow> string \<Rightarrow> string \<Rightarrow> evaluate_reply reply \<Rightarrow> (js_error + jsval) \<times> event list" where
  "evaluate this tid expression eval_reply =
     (case getConnection this tid of
        Inl e \<Rightarrow> (Inl e, [])
      | Inr connection \<Rightarrow>
          (let evs = [Send (client connection) ''Runtime.evaluate''
                        (JObj [(''expression'', JStr expression),
                               (''returnByValue'', JBool True), (''awaitPromise'', JBool True)])]
           in case evaluate_try eval_reply of
                Inr v \<Rightarrow> (Inr v, evs)
              | Inl error \<Rightarrow>
                  (Inl (CDPError ''Failed to evaluate JavaScript''
                          (Some [originalError (message error),
                                 (''expression'', JStr expression)])), evs)))"

datatype image_format = png | jpeg

record screenshot_options =
  format :: "image_format option"
  quality :: "int option"

fun format_string :: "image_format \<Rightarrow> string" where
  "format_string png = ''png''"
| "format_string jpeg = ''jpeg''"

definition screenshot_params :: "screenshot_options option \<Rightarrow> jsval" where
  "screenshot_params options =
     JObj [(''format'',
              JStr (case Option.bind options format of
                      None \<Rightarrow> ''png'' | Some f \<Rightarrow> format_string f)),
           (''quality'',
              (case Option.bind options quality of
                 None \<Rightarrow> JUndefined | Some q \<Rightarrow> JNum q))]"

definition screenshot ::
  "CDPClient \<Rightarrow> string \<Rightarrow> screenshot_options option \<Rightarrow> string reply \<Rightarrow>
   (js_error + string) \<times> event list" where
  "screenshot this tid options shot_reply =
     (case getConnection this tid of
        Inl e \<Rightarrow> (Inl e, [])
      | Inr connection \<Rightarrow>
          (let evs = [Send (client connection) ''Page.captureScreenshot''
                        (screenshot_params options)]
           in case await shot_reply of
                Inr data \<Rightarrow> (Inr data, evs)
              | Inl error \<Rightarrow>
                  (Inl (CDPError ''Failed to capture screenshot''
                          (Some [originalError (message error)])), evs)))"

section \<open>The auto-connect policy: \<open>ensureConnected\<close> (\<open>src/tools/dom/index.ts\<close>)\<close>

text \<open>The two module-level variables of the file.\<close>

record module_state =
  cdpClient :: "CDPClient option"
  connectedTargetId :: "string option"

definition no_targets_error :: js_error where
  "no_targets_error =
     Error (''No Electron targets found. '' @
            ''Make sure your Electron app is running with --inspect=9222 flag.'')"

text \<open>
  \<open>connectedTargetId && cdpClient.isConnected(connectedTargetId)\<close>: \<open>null\<close> and the empty
  string are falsy.
\<close>

definition remembered :: "CDPClient \<Rightarrow> string option \<Rightarrow> string option" where
  "remembered c r =
     (case r of
        None \<Rightarrow> None
      | Some t \<Rightarrow> if t \<noteq> [] \<and> isConnected c t then Some t else None)"

text \<open>Lines 15 to 17: the client is created on first use.\<close>

definition current_client :: "module_state \<Rightarrow> CDPClient" where
  "current_client m = (case cdpClient m of None \<Rightarrow> default_CDPClient | Some c \<Rightarrow> c)"

definition page_targets :: "CDPTarget list \<Rightarrow> CDPTarget list" where
  "page_targets targets = filter (\<lambda>t. type_target t = ''page'') targets"

definition ensureConnected ::
  "module_state \<Rightarrow> CDPTarget list reply \<Rightarrow> connect_replies \<Rightarrow>
   (js_error + CDPClient \<times> string) \<times> module_state \<times> event list" where
  "ensureConnected m list_reply env =
     (let c = current_client m;
          m1 = m\<lparr>cdpClient := Some c\<rparr>
      in case remembered c (connectedTargetId m1) of
           Some t \<Rightarrow> (Inr (c, t), m1, [])
         | None \<Rightarrow>
           (case listTargets c list_reply of
              (Inl e, evs) \<Rightarrow> (Inl e, m1, evs)
            | (Inr targets, evs) \<Rightarrow>
                (case page_targets targets of
                   [] \<Rightarrow> (Inl no_targets_error, m1, evs)
                 | first # _ \<Rightarrow>
                     (let m2 = m1\<lparr>connectedTargetId := Some (id_target first)\<rparr>
                      in case connect c (id_target first) env of
                           (Inl e, c', evs') \<Rightarrow> (Inl e, m2\<lparr>cdpClient := Some c'\<rparr>, evs @ evs')
                         | (Inr _, c', evs') \<Rightarrow>
                             (Inr (c', id_target first), m2\<lparr>cdpClient := Some c'\<rparr>,
                              evs @ evs')))))"

section \<open>\<open>connect\<close> as an asynchronous function\<close>

text \<open>
  An \<open>async\<close> function runs synchronously up to its first \<open>await\<close>, and each later
  segment runs when the awaited promise settles; other calls may run in between.
  \<open>connect\<close> has two awaits: the \<open>CDP(...)\<close> call of line 57 and the \<open>Promise.all\<close>
  of line 64. A task is a call of \<open>connect\<close> that has started: waiting at one of the two
  awaits, or finished.
\<close>

datatype connect_task =
    Await_CDP string
  | Await_enables string nat
  | Returned
  | Threw js_error

datatype settled =
    CDP_settled "nat reply"
  | Enables_settled "nat list" "unit reply list"

text \<open>Lines 47 to 61: the test of the map, then the call that opens the channel.\<close>

definition connect_call :: "CDPClient \<Rightarrow> string \<Rightarrow> connect_task" where
  "connect_call this tid = (if already_connected this tid then Returned else Await_CDP tid)"

text \<open>Lines 62 to 69 after the first await, lines 71 to 75 after the second.\<close>

fun connect_resume ::
  "CDPClient \<Rightarrow> connect_task \<Rightarrow> settled \<Rightarrow> connect_task \<times> CDPClient \<times> event list" where
  "connect_resume this (Await_CDP tid) (CDP_settled r) =
     (case await r of
        Inl error \<Rightarrow> (Threw (connect_error tid error), this, [OpenFailed tid])
      | Inr c \<Rightarrow> (Await_enables tid c, this, Opened tid c # enable_calls c))"
| "connect_resume this (Await_enables tid c) (Enables_settled order rs) =
     (case await (Promise_all order rs) of
        Inl error \<Rightarrow> (Threw (connect_error tid error), this, [])
      | Inr _ \<Rightarrow>
          (Returned,
           this\<lparr>connections :=
             AList.update tid \<lparr>targetId = tid, client = c, connected = True\<rparr>
               (connections this)\<rparr>,
           []))"
| "connect_resume this task r = (task, this, [])"

text \<open>
  The manager with the calls of \<open>connect\<close> in flight and the calls issued so far.
\<close>

record system =
  manager :: CDPClient
  tasks :: "connect_task list"
  trace :: "event list"

definition start_system :: "CDPClient \<Rightarrow> system" where
  "start_system c = \<lparr>manager = c, tasks = [], trace = []\<rparr>"

definition call_connect :: "system \<Rightarrow> string \<Rightarrow> system" where
  "call_connect s tid = s\<lparr>tasks := tasks s @ [connect_call (manager s) tid]\<rparr>"

definition resume :: "system \<Rightarrow> nat \<Rightarrow> settled \<Rightarrow> system" where
  "resume s i r =
     (if i < length (tasks s)
      then (case connect_resume (manager s) (tasks s ! i) r of
              (task', m', evs) \<Rightarrow>
                s\<lparr>manager := m', tasks := (tasks s)[i := task'], trace := trace s @ evs\<rparr>)
      else s)"

definition is_Opened :: "string \<Rightarrow> event \<Rightarrow> bool" where
  "is_Opened tid e = (case e of Opened t c \<Rightarrow> t = tid | _ \<Rightarrow> False)"

definition channels_opened :: "string \<Rightarrow> event list \<Rightarrow> nat" where
  "channels_opened tid evs = length (filter (is_Opened tid) evs)"

text \<open>
  Two calls of \<open>connect\<close> for the same target, the second issued before the first's
  promise settles; then each task is resumed as its awaits settle with \<open>r1\<close>, \<open>r2\<close>.
\<close>

definition overlapping_connects :: "CDPClient \<Rightarrow> string \<Rightarrow> nat \<Rightarrow> nat \<Rightarrow> system" where
  "overlapping_connects c tid c1 c2 =
     (let all_ok = Enables_settled [0, 1, 2, 3] [Inr (), Inr (), Inr (), Inr ()];
          s1 = call_connect (call_connect (start_system c) tid) tid;
          s2 = resume (resume s1 0 (CDP_settled (Inr c1))) 1 (CDP_settled (Inr c2))
      in resume (resume s2 0 all_ok) 1 all_ok)"

text \<open>
  Runs of the system: a call of \<open>connect\<close> is issued (it becomes the next task), or the
  promise that a task waits for settles and the task runs its next segment.
\<close>

datatype action =
    Call string
  | Settle nat settled

fun perform :: "system \<Rightarrow> action \<Rightarrow> system" where
  "perform s (Call tid) = call_connect s tid"
| "perform s (Settle i r) = resume s i r"

definition run_actions :: "system \<Rightarrow> action list \<Rightarrow> system" where
  "run_actions s acts = foldl perform s acts"

text \<open>
  Two calls of \<open>connect\<close> for one target, both succeeding. The first call is task 0;
  what remains of it after it is issued are its two settlements, with channel \<open>c1\<close>.
  The second call is task 1: it is issued and has its two settlements, with channel
  \<open>c2\<close>. \<open>o1\<close> and \<open>o2\<close> are the orders in which the enables of each call settle. A
  schedule is an interleaving of the two lists; the calls overlap when the second is
  issued before the last segment of the first, which stores the session, has run.
\<close>

definition all_enabled :: "nat list \<Rightarrow> settled" where
  "all_enabled order = Enables_settled order [Inr (), Inr (), Inr (), Inr ()]"

definition first_call_rest :: "nat \<Rightarrow> nat list \<Rightarrow> action list" where
  "first_call_rest c1 o1 = [Settle 0 (CDP_settled (Inr c1)), Settle 0 (all_enabled o1)]"

definition second_call :: "string \<Rightarrow> nat \<Rightarrow> nat list \<Rightarrow> action list" where
  "second_call tid c2 o2 =
     [Call tid, Settle 1 (CDP_settled (Inr c2)), Settle 1 (all_enabled o2)]"

definition overlap :: "string \<Rightarrow> nat list \<Rightarrow> action list \<Rightarrow> bool" where
  "overlap tid o1 sch =
     (Call tid \<in> set (takeWhile (\<lambda>a. a \<noteq> Settle 0 (all_enabled o1)) sch))"

text \<open>The channel of the task whose last segment runs last.\<close>

definition last_stored :: "nat list \<Rightarrow> nat \<Rightarrow> nat \<Rightarrow> action list \<Rightarrow> nat" where
  "last_stored o1 c1 c2 sch = (if last sch = Settle 0 (all_enabled o1) then c1 else c2)"

text \<open>One call of \<open>connect\<close> with nothing running in between its segments.\<close>

definition connect_alone :: "CDPClient \<Rightarrow> string \<Rightarrow> connect_replies \<Rightarrow> system" where
  "connect_alone c tid env =
     resume (resume (call_connect (start_system c) tid) 0 (CDP_settled (CDP_reply env))) 0
       (Enables_settled (settle_order env) (enable_replies env))"

fun task_result :: "connect_task \<Rightarrow> (js_error + unit) option" where
  "task_result Returned = Some (Inr ())"
| "task_result (Threw e) = Some (Inl e)"
| "task_result task = None"

section \<open>Sequences of operations of the manager\<close>

datatype operation =
    Connect string connect_replies
  | Disconnect string "nat \<Rightarrow> unit reply"
  | DisconnectAll "nat \<Rightarrow> unit reply"

fun apply_operation :: "CDPClient \<Rightarrow> operation \<Rightarrow> CDPClient" where
  "apply_operation this (Connect tid env) = fst (snd (connect this tid env))"
| "apply_operation this (Disconnect tid close_reply) = fst (disconnect this tid close_reply)"
| "apply_operation this (DisconnectAll close_reply) = fst (disconnectAll this close_reply)"

definition run :: "CDPClient \<Rightarrow> operation list \<Rightarrow> CDPClient" where
  "run this ops = foldl apply_operation this ops"

text \<open>
  The invariant of the map: keys are unique, and every stored session has its flag set
  and is stored under its own target id.
\<close>

definition manager_inv :: "CDPClient \<Rightarrow> bool" where
  "manager_inv mgr =
     (distinct (map fst (connections mgr)) \<and>
      list_all (\<lambda>(k, conn). connected conn \<and> targetId conn = k) (connections mgr))"

section \<open>Concrete replies and states\<close>

definition ok_replies :: "nat \<Rightarrow> connect_replies" where
  "ok_replies c =
     \<lparr>CDP_reply = Inr c, DOM_enable = Inr (), Runtime_enable = Inr (),
      Page_enable = Inr (), Network_enable = Inr (), settle_order = [0, 1, 2, 3]\<rparr>"

definition runtime_fails :: "nat \<Rightarrow> connect_replies" where
  "runtime_fails c = (ok_replies c)\<lparr>Runtime_enable := Inl ''Runtime.enable failed''\<rparr>"

text \<open>
  A renderer for the examples: decimal digits, which is how the runtime renders the
  small node ids used below.
\<close>

definition digit :: "nat \<Rightarrow> char" where
  "digit d = char_of (of_char (CHR ''0'') + d)"

fun decimal_nat :: "nat \<Rightarrow> string" where
  "decimal_nat n =
     (if 10 \<le> n then decimal_nat (n div 10) @ [digit (n mod 10)] else [digit n])"

declare decimal_nat.simps [simp del]

definition decimal :: "int \<Rightarrow> string" where
  "decimal i = (if i < 0 then CHR ''-'' # decimal_nat (nat (- i)) else decimal_nat (nat i))"

definition close_ok :: "nat \<Rightarrow> unit reply" where
  "close_ok c = Inr ()"

text \<open>A manager with one connected session, for the target \<open>page-1\<close> on channel 7.\<close>

definition one_session :: CDPClient where
  "one_session = fst (snd (connect default_CDPClient ''page-1'' (ok_replies 7)))"

definition a_document :: DOMNode where
  "a_document = DOMNode 1 9 ''#document'' None None"

definition target :: "string \<Rightarrow> string \<Rightarrow> CDPTarget" where
  "target i k =
     \<lparr>id_target = i, type_target = k, title = [], url = [],
      webSocketDebuggerUrl = None, devtoolsFrontendUrl = None\<rparr>"

definition fresh_module :: module_state where
  "fresh_module = \<lparr>cdpClient = None, connectedTargetId = None\<rparr>"

definition mixed_targets :: "CDPTarget list" where
  "mixed_targets = [target ''w'' ''webview'', target ''p1'' ''page'', target ''p2'' ''page'']"

text \<open>
  A schedule of two overlapping calls in which the second call, issued after the first's
  channel opened, stores its session before the first does.
\<close>

definition second_finishes_first :: "action list" where
  "second_finishes_first =
     [Settle 0 (CDP_settled (Inr 1)), Call ''page-1'', Settle 1 (CDP_settled (Inr 2)),
      Settle 1 (all_enabled [3, 2, 1, 0]), Settle 0 (all_enabled [0, 1, 2, 3])]"

definition script_threw :: evaluate_reply where
  "script_threw =
     \<lparr>result_value = JUndefined,
      exceptionDetails = Some \<lparr>exception_text = Some ''Uncaught TypeError''\<rparr>\<rparr>"

text \<open>The \<open>name\<close> of the error that an operation threw, if it threw.\<close>

definition thrown_name :: "(js_error + 'a) \<times> event list \<Rightarrow> string option" where
  "thrown_name r = (case fst r of Inl e \<Rightarrow> Some (error_name e) | Inr v \<Rightarrow> None)"

section \<open>Basic facts\<close>

lemma isConnected_already: "already_connected this tid = isConnected this tid"
  by (simp add: already_connected_def isConnected_def split: option.splits)

lemma getConnection_not_connected:
  "\<not> isConnected this tid \<Longrightarrow> getConnection this tid = Inl (not_connected_error tid)"
  by (auto simp add: getConnection_def isConnected_def split: option.splits)

lemma getConnection_connected:
  "isConnected this tid \<Longrightarrow>
   \<exists>conn. getConnection this tid = Inr conn \<and> map_of (connections this) tid = Some conn"
  by (auto simp add: getConnection_def isConnected_def split: option.splits)

lemma first_rejection_None:
  "first_rejection rs order = None \<longleftrightarrow>
     (\<forall>i\<in>set order. i < length rs \<longrightarrow> \<not> isl (rs ! i))"
  by (induction order) (auto split: sum.splits)

lemma Promise_all_rejects:
  "(\<exists>m. Promise_all order rs = Inl m) \<longleftrightarrow> (\<exists>r\<in>set rs. isl r)"
proof -
  have "(\<exists>m. Promise_all order rs = Inl m) \<longleftrightarrow>
        first_rejection rs (order @ [0..<length rs]) \<noteq> None"
    by (auto simp add: Promise_all_def split: option.splits)
  also have "\<dots> \<longleftrightarrow> (\<exists>i<length rs. isl (rs ! i))"
    unfolding first_rejection_None by auto
  also have "\<dots> \<longleftrightarrow> (\<exists>r\<in>set rs. isl r)"
    by (metis in_set_conv_nth)
  finally show ?thesis .
qed

lemma Promise_all_resolves:
  "Promise_all order [Inr (), Inr (), Inr (), Inr ()] = Inr [(), (), (), ()]"
proof -
  have "first_rejection [Inr (), Inr (), Inr (), Inr ()]
          (order @ [0..<length [Inr (), Inr (), Inr (), Inr () :: unit reply]]) = None"
    unfolding first_rejection_None by (auto simp add: nth_Cons')
  then show ?thesis by (simp add: Promise_all_def)
qed

lemma connect_ok_replies:
  "\<not> already_connected mgr tid \<Longrightarrow>
   connect mgr tid (ok_replies c) =
     (Inr (),
      mgr\<lparr>connections :=
        AList.update tid \<lparr>targetId = tid, client = c, connected = True\<rparr> (connections mgr)\<rparr>,
      Opened tid c # enable_calls c)"
  by (simp add: connect_def ok_replies_def enable_replies_def await_def Promise_all_resolves)

lemma connect_runtime_fails:
  "\<not> already_connected mgr tid \<Longrightarrow>
   connect mgr tid (runtime_fails c) =
     (Inl (connect_error tid (Error ''Runtime.enable failed'')), mgr,
      Opened tid c # enable_calls c)"
  by (simp add: connect_def runtime_fails_def ok_replies_def enable_replies_def await_def
      Promise_all_def)

lemma not_already_connected_default: "\<not> already_connected default_CDPClient t"
  by (simp add: already_connected_def default_CDPClient_def new_CDPClient_def)

lemma one_session_eq:
  "one_session =
     \<lparr>connections = [(''page-1'', \<lparr>targetId = ''page-1'', client = 7, connected = True\<rparr>)],
      host = ''localhost'', port = 9222\<rparr>"
  unfolding one_session_def connect_ok_replies [OF not_already_connected_default]
  by (simp add: default_CDPClient_def new_CDPClient_def)

lemma isConnected_one_session: "isConnected one_session ''page-1''"
  by (simp add: one_session_eq isConnected_def)

lemma getConnection_one_session:
  "getConnection one_session ''page-1'' =
     Inr \<lparr>targetId = ''page-1'', client = 7, connected = True\<rparr>"
  by (simp add: one_session_eq getConnection_def)

lemma not_isConnected_default: "\<not> isConnected default_CDPClient t"
  by (simp add: isConnected_def default_CDPClient_def new_CDPClient_def)

section \<open>Session setup\<close>

text \<open>
  C8. \<open>connect\<close> is idempotent: when the target's tracked session has its flag set, a
  further \<open>connect\<close> returns at once, leaves the manager as it was and issues no call to
  the library (no channel is opened, no domain is enabled again).
\<close>

theorem connect_idempotent:
  "isConnected mgr tid \<Longrightarrow> connect mgr tid env = (Inr (), mgr, [])"
  by (simp add: connect_def isConnected_already)

theorem connect_idempotent_witness:
  "isConnected one_session ''page-1'' \<and>
   connect one_session ''page-1'' (ok_replies 8) = (Inr (), one_session, [])"
  using connect_idempotent [of one_session "''page-1''" "ok_replies 8"]
  by (simp add: isConnected_one_session)

text \<open>
  C2, as the code has it. When the channel opens and at least one of the four
  domain-enable calls fails, \<open>connect\<close> throws a \<open>CDPError\<close> and leaves the manager
  unchanged, so no session with incomplete domains is stored or returned. The calls it
  issued are the opening of the channel and the four enables: \<open>close()\<close> is not called
  on the channel.
\<close>

theorem connect_enable_failure:
  assumes "\<not> isConnected mgr tid" and "CDP_reply env = Inr c"
    and "\<exists>r\<in>set (enable_replies env). isl r"
  shows "(\<exists>m. connect mgr tid env =
           (Inl (CDPError (''Failed to connect to target '' @ tid)
                   (Some [(''originalError'', JStr m)])),
            mgr, Opened tid c # enable_calls c)) \<and>
         Close c \<notin> set (snd (snd (connect mgr tid env)))"
proof -
  from assms(3) obtain m
    where m: "Promise_all (settle_order env) (enable_replies env) = Inl m"
    using Promise_all_rejects [of "settle_order env" "enable_replies env"] by blast
  have eq: "connect mgr tid env =
      (Inl (connect_error tid (Error m)), mgr, Opened tid c # enable_calls c)"
    using assms(1,2) m by (simp add: connect_def isConnected_already await_def)
  have "\<exists>m. connect mgr tid env =
           (Inl (CDPError (''Failed to connect to target '' @ tid)
                   (Some [(''originalError'', JStr m)])),
            mgr, Opened tid c # enable_calls c)"
    by (simp add: eq connect_error_def originalError_def)
  moreover have "Close c \<notin> set (snd (snd (connect mgr tid env)))"
    by (simp add: eq enable_calls_def)
  ultimately show ?thesis by blast
qed

theorem connect_enable_failure_witness:
  "\<not> isConnected default_CDPClient ''page-1'' \<and>
   CDP_reply (runtime_fails 7) = Inr 7 \<and>
   isl (Runtime_enable (runtime_fails 7)) \<and>
   fst (snd (connect default_CDPClient ''page-1'' (runtime_fails 7))) = default_CDPClient \<and>
   Close 7 \<notin> set (snd (snd (connect default_CDPClient ''page-1'' (runtime_fails 7))))"
proof -
  have h1: "\<not> isConnected default_CDPClient ''page-1''"
    by (rule not_isConnected_default)
  have h2: "CDP_reply (runtime_fails 7) = Inr 7"
    by (simp add: runtime_fails_def ok_replies_def)
  have h3: "\<exists>r\<in>set (enable_replies (runtime_fails 7)). isl r"
    by (simp add: runtime_fails_def ok_replies_def enable_replies_def)
  have h4: "isl (Runtime_enable (runtime_fails 7))"
    by (simp add: runtime_fails_def)
  from connect_enable_failure [OF h1 h2 h3] h1 h2 h4 show ?thesis by auto
qed

text \<open>
  C2, as the claim states it, fails: with \<open>Runtime.enable\<close> rejecting on the freshly
  opened channel 7, the error is thrown and channel 7 has not been closed.
\<close>

theorem connect_enable_failure_counterexample:
  "connect default_CDPClient ''page-1'' (runtime_fails 7) =
     (Inl (CDPError ''Failed to connect to target page-1''
             (Some [(''originalError'', JStr ''Runtime.enable failed'')])),
      default_CDPClient,
      [Opened ''page-1'' 7, Send 7 ''DOM.enable'' JUndefined,
       Send 7 ''Runtime.enable'' JUndefined, Send 7 ''Page.enable'' JUndefined,
       Send 7 ''Network.enable'' JUndefined]) \<and>
   Close 7 \<notin> set (snd (snd (connect default_CDPClient ''page-1'' (runtime_fails 7))))"
  by (simp add: connect_runtime_fails [OF not_already_connected_default] connect_error_def
      originalError_def enable_calls_def)

section \<open>Operations on a session\<close>

text \<open>
  C6. For a target without a connected session, each of the seven session operations
  throws the \<open>CDPError\<close> \<open>Not connected to target t. Call connect() first.\<close> and issues
  no call to the library: no channel is opened and nothing is sent.
\<close>

theorem not_connected_fails_fast:
  assumes "\<not> isConnected mgr tid"
  shows "getDocument mgr tid r1 = (Inl (not_connected_error tid), []) \<and>
    querySelector mgr tid sel r2 r3 = (Inl (not_connected_error tid), []) \<and>
    querySelectorAll mgr tid sel r4 r5 = (Inl (not_connected_error tid), []) \<and>
    getNodeAttributes mgr tid n f r6 = (Inl (not_connected_error tid), []) \<and>
    getOuterHTML mgr tid n g r7 = (Inl (not_connected_error tid), []) \<and>
    evaluate mgr tid ex r8 = (Inl (not_connected_error tid), []) \<and>
    screenshot mgr tid opts r9 = (Inl (not_connected_error tid), []) \<and>
    not_connected_error tid =
      CDPError (''Not connected to target '' @ tid @ ''. Call connect() first.'') None"
  using getConnection_not_connected [OF assms]
  by (simp add: getDocument_def querySelector_def querySelectorAll_def
      getNodeAttributes_def getOuterHTML_def evaluate_def screenshot_def not_connected_error_def)

theorem not_connected_fails_fast_witness:
  "\<not> isConnected default_CDPClient ''page-1'' \<and>
   getDocument default_CDPClient ''page-1'' (Inr a_document) =
     (Inl (CDPError ''Not connected to target page-1. Call connect() first.'' None), []) \<and>
   evaluate default_CDPClient ''page-1'' ''1+1''
       (Inr \<lparr>result_value = JNum 2, exceptionDetails = None\<rparr>) =
     (Inl (CDPError ''Not connected to target page-1. Call connect() first.'' None), [])"
  using not_connected_fails_fast [where mgr = default_CDPClient and tid = "''page-1''"
      and ?r1.0 = "Inr a_document" and ex = "''1+1''"
      and ?r8.0 = "Inr \<lparr>result_value = JNum 2, exceptionDetails = None\<rparr>"]
  by (simp add: not_isConnected_default)

text \<open>
  C7. On a connected session, a query that matches nothing is a success. The protocol
  reports no match as node id 0 for \<open>DOM.querySelector\<close> and as the empty array for
  \<open>DOM.querySelectorAll\<close>; \<open>querySelector\<close> then returns \<open>null\<close> and \<open>querySelectorAll\<close>
  the empty array, and neither throws.
\<close>

theorem zero_match_is_success:
  assumes "isConnected mgr tid"
  shows "fst (querySelector mgr tid sel (Inr root) (Inr (Some 0))) = Inr None \<and>
         fst (querySelectorAll mgr tid sel (Inr root) (Inr (Some []))) = Inr []"
  using getConnection_connected [OF assms]
  by (auto simp add: querySelector_def querySelectorAll_def await_def Let_def
      nodeId_or_null_def nodeIds_or_empty_def)

theorem zero_match_is_success_witness:
  "isConnected one_session ''page-1'' \<and>
   fst (querySelector one_session ''page-1'' ''#missing'' (Inr a_document) (Inr (Some 0))) =
     Inr None \<and>
   fst (querySelectorAll one_session ''page-1'' ''#missing'' (Inr a_document) (Inr (Some []))) =
     Inr []"
  using zero_match_is_success [of one_session "''page-1''" "''#missing''" a_document]
  by (simp add: isConnected_one_session)

text \<open>
  C3, as the code has it. On a connected session both failures of \<open>evaluate\<close> are thrown
  as the same \<open>CDPError\<close> with the message \<open>Failed to evaluate JavaScript\<close>: when the
  reply carries exception details, \<open>details.originalError\<close> is the text that the target
  reported (or \<open>JavaScript execution failed\<close> when that text is missing or empty); when
  the call itself is rejected, it is the message of the rejection.
\<close>

theorem evaluate_failures_are_CDPError:
  assumes "isConnected mgr tid"
  shows "(exceptionDetails r = Some ed \<longrightarrow>
           fst (evaluate mgr tid expression (Inr r)) =
             Inl (CDPError ''Failed to evaluate JavaScript''
                   (Some [(''originalError'',
                            JStr (or_string (exception_text ed) ''JavaScript execution failed'')),
                          (''expression'', JStr expression)]))) \<and>
         fst (evaluate mgr tid expression (Inl m)) =
           Inl (CDPError ''Failed to evaluate JavaScript''
                 (Some [(''originalError'', JStr m), (''expression'', JStr expression)]))"
  using getConnection_connected [OF assms]
  by (auto simp add: evaluate_def evaluate_try_def await_def Let_def originalError_def)

theorem evaluate_failures_are_CDPError_witness:
  "isConnected one_session ''page-1'' \<and>
   exceptionDetails script_threw = Some \<lparr>exception_text = Some ''Uncaught TypeError''\<rparr> \<and>
   fst (evaluate one_session ''page-1'' ''null.x'' (Inr script_threw)) =
     Inl (CDPError ''Failed to evaluate JavaScript''
           (Some [(''originalError'', JStr ''Uncaught TypeError''),
                  (''expression'', JStr ''null.x'')]))"
  using evaluate_failures_are_CDPError [where mgr = one_session and tid = "''page-1''"
      and r = script_threw and ed = "\<lparr>exception_text = Some ''Uncaught TypeError''\<rparr>"
      and expression = "''null.x''"]
  by (simp add: isConnected_one_session script_threw_def or_string_def)

text \<open>
  C3, as the claim states it, fails: the error thrown for an expression that raised in
  the target and the error thrown for a dropped connection have the same kind.
\<close>

theorem evaluate_script_error_counterexample:
  "thrown_name (evaluate one_session ''page-1'' ''null.x'' (Inr script_threw)) =
     Some ''CDPError'' \<and>
   thrown_name (evaluate one_session ''page-1'' ''null.x'' (Inl ''socket closed'')) =
     Some ''CDPError''"
  by (simp add: thrown_name_def evaluate_def evaluate_try_def getConnection_one_session
      await_def script_threw_def)


section \<open>Decoding of attributes\<close>

lemma attributes_loop_from:
  "attributes_loop attrs i result = attributes_from (drop i attrs) result"
proof (induction attrs i result rule: attributes_loop.induct)
  case (1 attrs i result)
  show ?case
  proof (cases "i < length attrs")
    case False
    then show ?thesis by (simp add: attributes_loop.simps)
  next
    case lt: True
    have step: "attributes_loop attrs i result =
        attributes_loop attrs (i + 2)
          (assign_property result (attrs ! i) (at_index attrs (i + 1)))"
      by (subst attributes_loop.simps) (simp only: lt if_True)
    note IH = "1.IH" [OF lt]
    have di: "drop i attrs = attrs ! i # drop (Suc i) attrs"
      using lt by (simp add: Cons_nth_drop_Suc)
    show ?thesis
    proof (cases "i + 1 < length attrs")
      case True
      have "drop (Suc i) attrs = attrs ! (i + 1) # drop (i + 2) attrs"
        using True by (simp add: Cons_nth_drop_Suc)
      then have d: "drop i attrs = attrs ! i # attrs ! (i + 1) # drop (i + 2) attrs"
        using di by simp
      have ai: "at_index attrs (i + 1) = JStr (attrs ! (i + 1))"
        using True by (simp add: at_index_def)
      show ?thesis
        unfolding step IH by (simp only: ai d attributes_from.simps)
    next
      case False
      then have len: "length attrs = i + 1" using lt by simp
      have d: "drop i attrs = [attrs ! i]"
        using di len by simp
      have ai: "at_index attrs (i + 1) = JUndefined"
        using len by (simp add: at_index_def)
      have e: "drop (i + 2) attrs = []"
        using len by simp
      show ?thesis
        unfolding step IH by (simp only: ai e d attributes_from.simps)
    qed
  qed
qed

lemma attributes_from_fold:
  "''__proto__'' \<notin> set (names attrs) \<Longrightarrow>
   attributes_from attrs result =
     (if even (length attrs) then fold store_pair (pairs attrs) result
      else (fold store_pair (pairs attrs) result)(last attrs \<mapsto> JUndefined))"
  by (induction attrs result rule: attributes_from.induct)
     (auto simp add: assign_property_def store_pair_def)

lemma attributes_loop_even:
  "even (length attrs) \<Longrightarrow> ''__proto__'' \<notin> set (names attrs) \<Longrightarrow>
   attributes_loop attrs 0 Map.empty = fold_pairwise attrs"
  by (simp add: attributes_loop_from attributes_from_fold fold_pairwise_def)

lemma attributes_loop_odd:
  "odd (length attrs) \<Longrightarrow> ''__proto__'' \<notin> set (names attrs) \<Longrightarrow>
   attributes_loop attrs 0 Map.empty = (fold_pairwise attrs)(last attrs \<mapsto> JUndefined)"
  by (simp add: attributes_loop_from attributes_from_fold fold_pairwise_def)

lemma getNodeAttributes_connected:
  "isConnected mgr tid \<Longrightarrow>
   fst (getNodeAttributes mgr tid nid f (Inr attrs)) = Inr (attributes_loop attrs 0 Map.empty)"
  using getConnection_connected [of mgr tid]
  by (auto simp add: getNodeAttributes_def await_def Let_def)

text \<open>
  On a connected session, for an even-length payload in which no name is \<open>__proto__\<close>,
  the loop computes the pairwise fold; the payload \<open>["id", "foo", "class", "bar"]\<close>
  gives \<open>{id: "foo", class: "bar"}\<close>.
\<close>

lemma getNodeAttributes_even_payload:
  assumes "isConnected mgr tid" and "even (length attrs)"
    and "''__proto__'' \<notin> set (names attrs)"
  shows "fst (getNodeAttributes mgr tid nid f (Inr attrs)) = Inr (fold_pairwise attrs)"
  using assms by (simp add: getNodeAttributes_connected attributes_loop_even)

lemma getNodeAttributes_id_class:
  "fst (getNodeAttributes one_session ''page-1'' 5 decimal
          (Inr [''id'', ''foo'', ''class'', ''bar''])) =
     Inr [''id'' \<mapsto> JStr ''foo'', ''class'' \<mapsto> JStr ''bar'']"
  by (simp add: getNodeAttributes_even_payload isConnected_one_session fold_pairwise_def
      store_pair_def)

text \<open>
  C5. The claim holds of every even-length payload except those with the name
  \<open>__proto__\<close>, where the code loses the pair: for the payload
  \<open>["__proto__", "x", "id", "foo"]\<close> the code returns \<open>{id: "foo"}\<close>, while the pairwise
  fold of the payload maps \<open>__proto__\<close> to \<open>x\<close> as well.
\<close>

theorem getNodeAttributes_drops_proto:
  "fst (getNodeAttributes one_session ''page-1'' 5 decimal
          (Inr [''__proto__'', ''x'', ''id'', ''foo''])) =
     Inr [''id'' \<mapsto> JStr ''foo''] \<and>
   fold_pairwise [''__proto__'', ''x'', ''id'', ''foo''] =
     [''__proto__'' \<mapsto> JStr ''x'', ''id'' \<mapsto> JStr ''foo'']"
  by (simp add: getNodeAttributes_connected isConnected_one_session attributes_loop_from
      assign_property_def fold_pairwise_def store_pair_def)

text \<open>
  C4, as the code has it. On a connected session an odd-length payload raises no error:
  \<open>getNodeAttributes\<close> returns a mapping. When no name of the payload is \<open>__proto__\<close>,
  it is the mapping folded from the complete pairs, with the last, unpaired name mapped
  to \<open>undefined\<close>.
\<close>

theorem getNodeAttributes_odd_payload:
  assumes "isConnected mgr tid" and "odd (length attrs)"
  shows "(\<exists>m. fst (getNodeAttributes mgr tid nid f (Inr attrs)) = Inr m) \<and>
         (''__proto__'' \<notin> set (names attrs) \<longrightarrow>
            fst (getNodeAttributes mgr tid nid f (Inr attrs)) =
              Inr ((fold_pairwise attrs)(last attrs \<mapsto> JUndefined)))"
  using assms by (simp add: getNodeAttributes_connected attributes_loop_odd)

theorem getNodeAttributes_odd_payload_witness:
  "isConnected one_session ''page-1'' \<and> odd (length [''id'', ''foo'', ''class'']) \<and>
   ''__proto__'' \<notin> set (names [''id'', ''foo'', ''class'']) \<and>
   fst (getNodeAttributes one_session ''page-1'' 5 decimal (Inr [''id'', ''foo'', ''class''])) =
     Inr [''id'' \<mapsto> JStr ''foo'', ''class'' \<mapsto> JUndefined]"
  using getNodeAttributes_odd_payload [of one_session "''page-1''" "[''id'', ''foo'', ''class'']"
      5 decimal]
  by (simp add: isConnected_one_session fold_pairwise_def store_pair_def)

text \<open>
  C4, as the claim states it, fails: for the three-element payload
  \<open>["id", "foo", "class"]\<close> the operation returns a mapping and throws nothing.
\<close>

theorem getNodeAttributes_odd_payload_counterexample:
  "fst (getNodeAttributes one_session ''page-1'' 5 decimal (Inr [''id'', ''foo'', ''class''])) =
     Inr [''id'' \<mapsto> JStr ''foo'', ''class'' \<mapsto> JUndefined]"
  by (simp add: getNodeAttributes_connected isConnected_one_session attributes_loop_odd
      fold_pairwise_def store_pair_def)

section \<open>The auto-connect policy\<close>

lemma listTargets_ok:
  "listTargets c (Inr targets) = (Inr targets, [ListTargets (host c) (port c)])"
proof -
  have "map (\<lambda>target.
          \<lparr>id_target = id_target target, type_target = type_target target,
           title = title target, url = url target,
           webSocketDebuggerUrl = webSocketDebuggerUrl target,
           devtoolsFrontendUrl = devtoolsFrontendUrl target\<rparr>) targets = targets"
    by (induction targets) simp_all
  then show ?thesis by (simp add: listTargets_def await_def)
qed

text \<open>
  C9. When no remembered target has a connected session and discovery succeeds,
  \<open>ensureConnected\<close> keeps the targets of type \<open>page\<close> in their order. If none is left
  it throws the error whose message tells the operator to start the application with
  \<open>--inspect=9222\<close>, and the only call it issued is the discovery: no connect is
  attempted. Otherwise it remembers the id of the first page target and calls \<open>connect\<close>
  on it; its outcome is that of this \<open>connect\<close>.
\<close>

theorem ensureConnected_first_page:
  assumes "remembered (current_client m) (connectedTargetId m) = None"
  shows "(page_targets targets = [] \<longrightarrow>
            ensureConnected m (Inr targets) env =
              (Inl (Error (''No Electron targets found. '' @
                 ''Make sure your Electron app is running with --inspect=9222 flag.'')),
               m\<lparr>cdpClient := Some (current_client m)\<rparr>,
               [ListTargets (host (current_client m)) (port (current_client m))])) \<and>
         (page_targets targets \<noteq> [] \<longrightarrow>
            ensureConnected m (Inr targets) env =
              (case connect (current_client m) (id_target (hd (page_targets targets))) env of
                 (r, c', evs) \<Rightarrow>
                   (case r of Inl e \<Rightarrow> Inl e
                            | Inr u \<Rightarrow> Inr (c', id_target (hd (page_targets targets))),
                    m\<lparr>cdpClient := Some c',
                      connectedTargetId := Some (id_target (hd (page_targets targets)))\<rparr>,
                    ListTargets (host (current_client m)) (port (current_client m)) # evs)))"
proof (cases "page_targets targets")
  case Nil
  then show ?thesis
    using assms
    by (simp add: ensureConnected_def Let_def listTargets_ok no_targets_error_def)
next
  case (Cons first rest)
  then show ?thesis
    using assms
    by (simp add: ensureConnected_def Let_def listTargets_ok split: prod.splits sum.splits)
qed

theorem ensureConnected_first_page_witness:
  "remembered (current_client fresh_module) (connectedTargetId fresh_module) = None \<and>
   page_targets [target ''w'' ''webview''] = [] \<and>
   ensureConnected fresh_module (Inr [target ''w'' ''webview'']) (ok_replies 3) =
     (Inl (Error (''No Electron targets found. '' @
        ''Make sure your Electron app is running with --inspect=9222 flag.'')),
      \<lparr>cdpClient = Some default_CDPClient, connectedTargetId = None\<rparr>,
      [ListTargets ''localhost'' 9222]) \<and>
   page_targets mixed_targets \<noteq> [] \<and>
   fst (ensureConnected fresh_module (Inr mixed_targets) (ok_replies 3)) =
     Inr (\<lparr>connections = [(''p1'', \<lparr>targetId = ''p1'', client = 3, connected = True\<rparr>)],
           host = ''localhost'', port = 9222\<rparr>, ''p1'')"
proof -
  have h: "remembered (current_client fresh_module) (connectedTargetId fresh_module) = None"
    by (simp add: remembered_def fresh_module_def)
  have c: "current_client fresh_module = default_CDPClient"
    by (simp add: current_client_def fresh_module_def)
  have p1: "page_targets [target ''w'' ''webview''] = []"
    by (simp add: page_targets_def target_def)
  have p2: "page_targets mixed_targets = [target ''p1'' ''page'', target ''p2'' ''page'']"
    by (simp add: page_targets_def mixed_targets_def target_def)
  have k: "connect default_CDPClient ''p1'' (ok_replies 3) =
     (Inr (), \<lparr>connections = [(''p1'', \<lparr>targetId = ''p1'', client = 3, connected = True\<rparr>)],
           host = ''localhost'', port = 9222\<rparr>, Opened ''p1'' 3 # enable_calls 3)"
    unfolding connect_ok_replies [OF not_already_connected_default]
    by (simp add: default_CDPClient_def new_CDPClient_def)
  have d: "host default_CDPClient = ''localhost'' \<and> port default_CDPClient = 9222"
    by (simp add: default_CDPClient_def new_CDPClient_def)
  have t1: "ensureConnected fresh_module (Inr [target ''w'' ''webview'']) (ok_replies 3) =
      (Inl (Error (''No Electron targets found. '' @
         ''Make sure your Electron app is running with --inspect=9222 flag.'')),
       fresh_module\<lparr>cdpClient := Some (current_client fresh_module)\<rparr>,
       [ListTargets (host (current_client fresh_module)) (port (current_client fresh_module))])"
    using ensureConnected_first_page [OF h, of "[target ''w'' ''webview'']" "ok_replies 3"] p1
    by blast
  have ne: "page_targets mixed_targets \<noteq> []"
    by (simp add: p2)
  have t2: "ensureConnected fresh_module (Inr mixed_targets) (ok_replies 3) =
      (case connect (current_client fresh_module)
              (id_target (hd (page_targets mixed_targets))) (ok_replies 3) of
         (r, c', evs) \<Rightarrow>
           (case r of Inl e \<Rightarrow> Inl e
                    | Inr u \<Rightarrow> Inr (c', id_target (hd (page_targets mixed_targets))),
            fresh_module\<lparr>cdpClient := Some c',
              connectedTargetId := Some (id_target (hd (page_targets mixed_targets)))\<rparr>,
            ListTargets (host (current_client fresh_module))
              (port (current_client fresh_module)) # evs))"
    using ensureConnected_first_page [OF h, of mixed_targets "ok_replies 3"] ne
    by blast
  have i: "id_target (hd (page_targets mixed_targets)) = ''p1''"
    by (simp add: p2 target_def)
  have r1: "ensureConnected fresh_module (Inr [target ''w'' ''webview'']) (ok_replies 3) =
     (Inl (Error (''No Electron targets found. '' @
        ''Make sure your Electron app is running with --inspect=9222 flag.'')),
      \<lparr>cdpClient = Some default_CDPClient, connectedTargetId = None\<rparr>,
      [ListTargets ''localhost'' 9222])"
    unfolding t1 c by (simp add: d fresh_module_def)
  have r2: "fst (ensureConnected fresh_module (Inr mixed_targets) (ok_replies 3)) =
     Inr (\<lparr>connections = [(''p1'', \<lparr>targetId = ''p1'', client = 3, connected = True\<rparr>)],
           host = ''localhost'', port = 9222\<rparr>, ''p1'')"
    unfolding t2 c i k by simp
  from h p1 r1 ne r2 show ?thesis by blast
qed

section \<open>Overlapping calls of \<open>connect\<close>\<close>

text \<open>
  Run without anything in between, the segments of the asynchronous \<open>connect\<close> compute
  what \<open>connect\<close> computes.
\<close>

lemma connect_alone_eq:
  "task_result (tasks (connect_alone c tid env) ! 0) = Some (fst (connect c tid env)) \<and>
   manager (connect_alone c tid env) = fst (snd (connect c tid env)) \<and>
   trace (connect_alone c tid env) = snd (snd (connect c tid env))"
  by (cases "CDP_reply env"; cases "Promise_all (settle_order env) (enable_replies env)")
     (simp_all add: connect_alone_def resume_def call_connect_def start_system_def
       connect_call_def connect_def await_def)

lemma channels_opened_connect:
  "channels_opened tid (Opened tid c # enable_calls c) = 1"
  by (simp add: channels_opened_def is_Opened_def enable_calls_def)

text \<open>The ten interleavings of what remains of the first call with the second call.\<close>

lemma schedules:
  "shuffles (first_call_rest c1 o1) (second_call tid c2 o2) =
     {[Settle 0 (CDP_settled (Inr c1)), Settle 0 (all_enabled o1),
         Call tid, Settle 1 (CDP_settled (Inr c2)), Settle 1 (all_enabled o2)],
      [Settle 0 (CDP_settled (Inr c1)), Call tid, Settle 0 (all_enabled o1),
         Settle 1 (CDP_settled (Inr c2)), Settle 1 (all_enabled o2)],
      [Settle 0 (CDP_settled (Inr c1)), Call tid, Settle 1 (CDP_settled (Inr c2)),
         Settle 0 (all_enabled o1), Settle 1 (all_enabled o2)],
      [Settle 0 (CDP_settled (Inr c1)), Call tid, Settle 1 (CDP_settled (Inr c2)),
         Settle 1 (all_enabled o2), Settle 0 (all_enabled o1)],
      [Call tid, Settle 0 (CDP_settled (Inr c1)), Settle 0 (all_enabled o1),
         Settle 1 (CDP_settled (Inr c2)), Settle 1 (all_enabled o2)],
      [Call tid, Settle 0 (CDP_settled (Inr c1)), Settle 1 (CDP_settled (Inr c2)),
         Settle 0 (all_enabled o1), Settle 1 (all_enabled o2)],
      [Call tid, Settle 0 (CDP_settled (Inr c1)), Settle 1 (CDP_settled (Inr c2)),
         Settle 1 (all_enabled o2), Settle 0 (all_enabled o1)],
      [Call tid, Settle 1 (CDP_settled (Inr c2)), Settle 0 (CDP_settled (Inr c1)),
         Settle 0 (all_enabled o1), Settle 1 (all_enabled o2)],
      [Call tid, Settle 1 (CDP_settled (Inr c2)), Settle 0 (CDP_settled (Inr c1)),
         Settle 1 (all_enabled o2), Settle 0 (all_enabled o1)],
      [Call tid, Settle 1 (CDP_settled (Inr c2)), Settle 1 (all_enabled o2),
         Settle 0 (CDP_settled (Inr c1)), Settle 0 (all_enabled o1)]}"
  by (auto simp add: first_call_rest_def second_call_def)

text \<open>
  Under every interleaving in which the calls overlap, both calls return, two channels
  have been opened, and the map holds the session stored last.
\<close>

lemma overlapping_schedule:
  assumes a: "\<not> already_connected mgr tid"
    and sch: "sch \<in> shuffles (first_call_rest c1 o1) (second_call tid c2 o2)"
    and ov: "overlap tid o1 sch"
  shows "tasks (run_actions (start_system mgr) (Call tid # sch)) = [Returned, Returned] \<and>
         channels_opened tid (trace (run_actions (start_system mgr) (Call tid # sch))) = 2 \<and>
         map_of (connections (manager (run_actions (start_system mgr) (Call tid # sch)))) tid =
           Some \<lparr>targetId = tid, client = last_stored o1 c1 c2 sch, connected = True\<rparr>"
  using sch ov a unfolding schedules
  by (elim insertE emptyE)
     (simp_all add: run_actions_def start_system_def call_connect_def connect_call_def
       resume_def all_enabled_def await_def Promise_all_resolves overlap_def last_stored_def
       channels_opened_def is_Opened_def enable_calls_def update_conv')

text \<open>
  Of the ten interleavings, the only one in which the calls do not overlap is the one
  that runs the first call to its end before the second is issued.
\<close>

lemma overlap_iff:
  assumes "sch \<in> shuffles (first_call_rest c1 o1) (second_call tid c2 o2)"
  shows "overlap tid o1 sch \<longleftrightarrow> sch \<noteq> first_call_rest c1 o1 @ second_call tid c2 o2"
  using assms unfolding schedules
  by (elim insertE emptyE)
     (simp_all add: overlap_def all_enabled_def first_call_rest_def second_call_def)

text \<open>The fixed run \<open>overlapping_connects\<close> is one of these schedules.\<close>

lemma overlapping_connects_run:
  "overlapping_connects mgr tid c1 c2 =
     run_actions (start_system mgr)
       [Call tid, Call tid, Settle 0 (CDP_settled (Inr c1)), Settle 1 (CDP_settled (Inr c2)),
        Settle 0 (all_enabled [0, 1, 2, 3]), Settle 1 (all_enabled [0, 1, 2, 3])]"
  by (simp add: overlapping_connects_def run_actions_def all_enabled_def Let_def)

text \<open>
  C1, as the code has it. For a target without a connected session: a \<open>connect\<close> issued
  after an earlier \<open>connect\<close> has succeeded opens no further channel, so exactly one
  channel has been opened. Two calls that overlap (the second is issued before the
  first has run its last segment, which stores the session) both pass the test of the
  map and both wait for a channel of their own; when both succeed, then under every
  order in which their awaits settle two channels have been opened, and the map holds
  the session of the call whose last segment ran last.
\<close>

theorem connect_sequential_and_overlapping:
  assumes "\<not> isConnected mgr tid"
  shows "(connect mgr tid env = (Inr (), mgr1, evs1) \<longrightarrow>
            channels_opened tid evs1 = 1 \<and> connect mgr1 tid env2 = (Inr (), mgr1, [])) \<and>
         (sch \<in> shuffles (first_call_rest c1 o1) (second_call tid c2 o2) \<and>
          overlap tid o1 sch \<longrightarrow>
            tasks (run_actions (start_system mgr) (Call tid # sch)) = [Returned, Returned] \<and>
            channels_opened tid (trace (run_actions (start_system mgr) (Call tid # sch))) = 2 \<and>
            map_of (connections (manager (run_actions (start_system mgr) (Call tid # sch))))
                tid =
              Some \<lparr>targetId = tid, client = last_stored o1 c1 c2 sch, connected = True\<rparr>) \<and>
         tasks (call_connect (call_connect (start_system mgr) tid) tid) =
           [Await_CDP tid, Await_CDP tid] \<and>
         tasks (overlapping_connects mgr tid c1 c2) = [Returned, Returned] \<and>
         channels_opened tid (trace (overlapping_connects mgr tid c1 c2)) = 2 \<and>
         map_of (connections (manager (overlapping_connects mgr tid c1 c2))) tid =
           Some \<lparr>targetId = tid, client = c2, connected = True\<rparr>"
proof -
  have a: "\<not> already_connected mgr tid"
    using assms by (simp add: isConnected_already)
  have seq: "connect mgr tid env = (Inr (), mgr1, evs1) \<longrightarrow>
            channels_opened tid evs1 = 1 \<and> connect mgr1 tid env2 = (Inr (), mgr1, [])"
  proof
    assume c: "connect mgr tid env = (Inr (), mgr1, evs1)"
    then obtain c0 where
      m1: "mgr1 = mgr\<lparr>connections :=
             AList.update tid \<lparr>targetId = tid, client = c0, connected = True\<rparr>
               (connections mgr)\<rparr>"
      and e1: "evs1 = Opened tid c0 # enable_calls c0"
      using a by (auto simp add: connect_def split: sum.splits)
    have "already_connected mgr1 tid"
      by (simp add: m1 already_connected_def update_conv')
    then show "channels_opened tid evs1 = 1 \<and> connect mgr1 tid env2 = (Inr (), mgr1, [])"
      by (simp add: e1 channels_opened_connect connect_def)
  qed
  have s1: "call_connect (call_connect (start_system mgr) tid) tid =
      \<lparr>manager = mgr, tasks = [Await_CDP tid, Await_CDP tid], trace = []\<rparr>"
    using a by (simp add: call_connect_def start_system_def connect_call_def)
  have ov: "overlapping_connects mgr tid c1 c2 =
      \<lparr>manager = mgr\<lparr>connections :=
          AList.update tid \<lparr>targetId = tid, client = c2, connected = True\<rparr>
            (AList.update tid \<lparr>targetId = tid, client = c1, connected = True\<rparr>
               (connections mgr))\<rparr>,
       tasks = [Returned, Returned],
       trace = (Opened tid c1 # enable_calls c1) @ (Opened tid c2 # enable_calls c2)\<rparr>"
    by (simp add: overlapping_connects_def s1 resume_def await_def Promise_all_resolves)
  have fixed: "tasks (overlapping_connects mgr tid c1 c2) = [Returned, Returned] \<and>
         channels_opened tid (trace (overlapping_connects mgr tid c1 c2)) = 2 \<and>
         map_of (connections (manager (overlapping_connects mgr tid c1 c2))) tid =
           Some \<lparr>targetId = tid, client = c2, connected = True\<rparr>"
    by (simp add: ov channels_opened_def is_Opened_def enable_calls_def update_conv')
  have s1': "tasks (call_connect (call_connect (start_system mgr) tid) tid) =
           [Await_CDP tid, Await_CDP tid]"
    by (simp add: s1)
  from seq overlapping_schedule [OF a, of sch c1 o1 c2 o2] s1' fixed
  show ?thesis by blast
qed

theorem connect_sequential_and_overlapping_witness:
  "\<not> isConnected default_CDPClient ''page-1'' \<and>
   connect default_CDPClient ''page-1'' (ok_replies 7) =
     (Inr (), one_session, Opened ''page-1'' 7 # enable_calls 7) \<and>
   connect one_session ''page-1'' (ok_replies 8) = (Inr (), one_session, []) \<and>
   second_finishes_first \<in> shuffles (first_call_rest 1 [0, 1, 2, 3])
     (second_call ''page-1'' 2 [3, 2, 1, 0]) \<and>
   overlap ''page-1'' [0, 1, 2, 3] second_finishes_first \<and>
   channels_opened ''page-1''
     (trace (run_actions (start_system default_CDPClient)
        (Call ''page-1'' # second_finishes_first))) = 2 \<and>
   map_of (connections (manager (run_actions (start_system default_CDPClient)
        (Call ''page-1'' # second_finishes_first)))) ''page-1'' =
     Some \<lparr>targetId = ''page-1'', client = 1, connected = True\<rparr>"
proof -
  have h: "\<not> isConnected default_CDPClient ''page-1''"
    by (rule not_isConnected_default)
  have k: "connect default_CDPClient ''page-1'' (ok_replies 7) =
     (Inr (), one_session, Opened ''page-1'' 7 # enable_calls 7)"
    unfolding connect_ok_replies [OF not_already_connected_default]
    by (simp add: one_session_eq default_CDPClient_def new_CDPClient_def)
  have m: "second_finishes_first \<in> shuffles (first_call_rest 1 [0, 1, 2, 3])
     (second_call ''page-1'' 2 [3, 2, 1, 0])"
    by (simp add: schedules second_finishes_first_def)
  have o: "overlap ''page-1'' [0, 1, 2, 3] second_finishes_first"
    by (simp add: overlap_def second_finishes_first_def all_enabled_def)
  have l: "last_stored [0, 1, 2, 3] 1 2 second_finishes_first = 1"
    by (simp add: last_stored_def second_finishes_first_def)
  from connect_sequential_and_overlapping [OF h, where env = "ok_replies 7"
      and ?mgr1.0 = one_session and ?evs1.0 = "Opened ''page-1'' 7 # enable_calls 7"
      and ?env2.0 = "ok_replies 8" and sch = second_finishes_first and ?c1.0 = 1
      and ?o1.0 = "[0, 1, 2, 3]" and ?c2.0 = 2 and ?o2.0 = "[3, 2, 1, 0]"]
  show ?thesis using h k m o unfolding l by blast
qed

text \<open>
  C1, as the claim states it, fails: two overlapping calls of \<open>connect\<close> for the target
  \<open>page-1\<close> on a fresh manager both return, and two channels have been opened.
\<close>

theorem concurrent_connect_counterexample:
  "tasks (overlapping_connects default_CDPClient ''page-1'' 1 2) = [Returned, Returned] \<and>
   channels_opened ''page-1'' (trace (overlapping_connects default_CDPClient ''page-1'' 1 2)) = 2"
  by (simp add: overlapping_connects_def call_connect_def start_system_def connect_call_def
      already_connected_def default_CDPClient_def new_CDPClient_def resume_def await_def
      Promise_all_resolves channels_opened_def is_Opened_def enable_calls_def)

section \<open>The invariant of the manager\<close>

lemma list_all_update:
  "list_all P al \<Longrightarrow> P (k, v) \<Longrightarrow> list_all P (AList.update k v al)"
  by (induction al) auto

lemma list_all_delete: "list_all P al \<Longrightarrow> list_all P (AList.delete k al)"
  by (induction al) auto

lemma manager_inv_new: "manager_inv (new_CDPClient h p)"
  by (simp add: manager_inv_def new_CDPClient_def)

lemma manager_inv_connect:
  "manager_inv mgr \<Longrightarrow> manager_inv (fst (snd (connect mgr tid env)))"
  by (auto simp add: manager_inv_def connect_def distinct_update list_all_update
      split: sum.splits)

lemma manager_inv_disconnect:
  "manager_inv mgr \<Longrightarrow> manager_inv (fst (disconnect mgr tid cr))"
  by (auto simp add: manager_inv_def disconnect_def Let_def distinct_delete list_all_delete
      delete_update_same split: option.splits sum.splits)

lemma manager_inv_disconnect_each:
  "manager_inv mgr \<Longrightarrow> manager_inv (fst (disconnect_each mgr tids cr))"
proof (induction tids arbitrary: mgr)
  case Nil
  then show ?case by simp
next
  case (Cons t ts)
  from Cons.IH [OF manager_inv_disconnect [OF Cons.prems, of t cr]]
  show ?case by (simp add: split_beta)
qed

lemma manager_inv_disconnectAll:
  "manager_inv mgr \<Longrightarrow> manager_inv (fst (disconnectAll mgr cr))"
  by (simp add: disconnectAll_def manager_inv_disconnect_each)

lemma manager_inv_apply_operation:
  "manager_inv mgr \<Longrightarrow> manager_inv (apply_operation mgr x)"
  by (cases x)
     (simp_all add: manager_inv_connect manager_inv_disconnect manager_inv_disconnectAll)

lemma manager_inv_run: "manager_inv mgr \<Longrightarrow> manager_inv (run mgr ops)"
  unfolding run_def by (induction ops arbitrary: mgr) (simp_all add: manager_inv_apply_operation)

lemma manager_inv_entries:
  "manager_inv mgr \<Longrightarrow> (k, conn) \<in> set (connections mgr) \<Longrightarrow> connected conn"
  by (auto simp add: manager_inv_def list_all_iff)

lemma manager_inv_isConnected:
  assumes "manager_inv mgr"
  shows "isConnected mgr t \<longleftrightarrow> t \<in> set (map fst (connections mgr))"
proof (cases "map_of (connections mgr) t")
  case None
  then have "t \<notin> fst ` set (connections mgr)"
    by (simp add: map_of_eq_None_iff)
  with None show ?thesis by (simp add: isConnected_def)
next
  case (Some conn)
  then have "(t, conn) \<in> set (connections mgr)" by (rule map_of_SomeD)
  then show ?thesis
    using manager_inv_entries [OF assms] Some by (force simp add: isConnected_def)
qed

lemma manager_inv_getActiveConnections:
  assumes "manager_inv mgr"
  shows "getActiveConnections mgr = map fst (connections mgr)"
proof -
  have "filter (\<lambda>(_, conn). connected conn) (connections mgr) = connections mgr"
    using manager_inv_entries [OF assms] by (auto simp add: filter_id_conv)
  then show ?thesis by (simp add: getActiveConnections_def)
qed

lemma connect_failure_unchanged:
  "isl (fst (connect mgr t env)) \<Longrightarrow> fst (snd (connect mgr t env)) = mgr"
  by (auto simp add: connect_def split: if_splits sum.splits)

lemma disconnect_unknown:
  "t \<notin> set (map fst (connections mgr)) \<Longrightarrow> disconnect mgr t cr = (mgr, [])"
  by (simp add: disconnect_def map_of_eq_None_iff [THEN iffD2])

lemma one_session_run:
  "one_session = run (new_CDPClient ''localhost'' 9222) [Connect ''page-1'' (ok_replies 7)]"
  by (simp add: one_session_def run_def default_CDPClient_def)

text \<open>
  C10. In every state that the manager reaches from its construction by \<open>connect\<close>,
  \<open>disconnect\<close> and \<open>disconnectAll\<close> (the session operations do not write the map),
  every entry of the map has its flag set; hence \<open>isConnected(t)\<close> holds exactly when
  \<open>t\<close> is a key, and \<open>getActiveConnections()\<close> is the list of keys. A \<open>connect\<close> that
  fails leaves the manager unchanged, and so does a \<open>disconnect\<close> of an unknown id.
\<close>

theorem manager_invariant:
  assumes "mgr = run (new_CDPClient h p) ops"
  shows "(\<forall>(k, conn)\<in>set (connections mgr). connected conn) \<and>
         (isConnected mgr t \<longleftrightarrow> t \<in> set (map fst (connections mgr))) \<and>
         getActiveConnections mgr = map fst (connections mgr) \<and>
         (isl (fst (connect mgr t env)) \<longrightarrow> fst (snd (connect mgr t env)) = mgr) \<and>
         (t \<notin> set (map fst (connections mgr)) \<longrightarrow> disconnect mgr t cr = (mgr, []))"
proof -
  have i: "manager_inv mgr" unfolding assms by (rule manager_inv_run [OF manager_inv_new])
  have "\<forall>(k, conn)\<in>set (connections mgr). connected conn"
    using manager_inv_entries [OF i] by blast
  then show ?thesis
    using manager_inv_isConnected [OF i] manager_inv_getActiveConnections [OF i]
      connect_failure_unchanged disconnect_unknown by blast
qed

theorem manager_invariant_witness:
  "one_session = run (new_CDPClient ''localhost'' 9222) [Connect ''page-1'' (ok_replies 7)] \<and>
   (''page-1'', \<lparr>targetId = ''page-1'', client = 7, connected = True\<rparr>)
     \<in> set (connections one_session) \<and>
   getActiveConnections one_session = [''page-1''] \<and>
   \<not> isConnected one_session ''other'' \<and>
   isl (fst (connect one_session ''other'' (runtime_fails 8))) \<and>
   fst (snd (connect one_session ''other'' (runtime_fails 8))) = one_session \<and>
   ''other'' \<notin> set (map fst (connections one_session)) \<and>
   disconnect one_session ''other'' close_ok = (one_session, [])"
proof -
  have c: "connections one_session =
      [(''page-1'', \<lparr>targetId = ''page-1'', client = 7, connected = True\<rparr>)]"
    by (simp add: one_session_eq)
  have f: "isl (fst (connect one_session ''other'' (runtime_fails 8)))"
    by (simp add: connect_runtime_fails already_connected_def c)
  from manager_invariant [OF one_session_run, of "''other''" "runtime_fails 8" close_ok]
  show ?thesis using one_session_run f by (simp add: c)
qed

end
